theory Spec2Isabelle
  imports Complex_Main "HOL-Library.Sublist"
begin

section \<open>Stock code conversion (select.py and fetch\_kline.py)\<close>

text \<open>
  Python's \<^verbatim>\<open>str.zfill(width)\<close>: a string at least \<^verbatim>\<open>width\<close> long is returned as it is;
  a shorter one is filled with the character 0 up to \<^verbatim>\<open>width\<close>, and the zeros go after a
  leading sign character (+ or -) when the string starts with one.  A code is modelled as
  a list of characters, one per code point.
\<close>

definition zfill :: "nat \<Rightarrow> string \<Rightarrow> string" where
  "zfill width s =
     (if width \<le> length s then s
      else case s of
             [] \<Rightarrow> replicate width (CHR ''0'')
           | c # rest \<Rightarrow>
               if c = CHR ''+'' \<or> c = CHR ''-''
               then c # replicate (width - length s) (CHR ''0'') @ rest
               else replicate (width - length s) (CHR ''0'') @ s)"

text \<open>\<^verbatim>\<open>s.startswith((p1, p2, ...))\<close>: some element of the tuple is a prefix of \<^verbatim>\<open>s\<close>.\<close>

definition startswith :: "string \<Rightarrow> string list \<Rightarrow> bool" where
  "startswith s ps = list_ex (\<lambda>p. prefix p s) ps"

text \<open>
  \<^verbatim>\<open>_to_ts_code\<close> of select.py, line 98:
  \<^verbatim>\<open>f"{code.zfill(6)}.SH" if code.startswith(("60", "68", "9")) else f"{code.zfill(6)}.SZ"\<close>
\<close>

definition to_ts_code_select :: "string \<Rightarrow> string" where
  "to_ts_code_select code =
     (if startswith code [''60'', ''68'', ''9''] then zfill 6 code @ ''.SH''
      else zfill 6 code @ ''.SZ'')"

text \<open>\<^verbatim>\<open>_to_ts_code\<close> of fetch\_kline.py, line 114 (the same expression, defined again).\<close>

definition to_ts_code_fetch_kline :: "string \<Rightarrow> string" where
  "to_ts_code_fetch_kline code =
     (if startswith code [''60'', ''68'', ''9''] then zfill 6 code @ ''.SH''
      else zfill 6 code @ ''.SZ'')"

text \<open>
  The description of the result in words: the code left-padded with zeros to six
  characters, then the exchange suffix.
\<close>

definition left_padded_ts_code :: "string \<Rightarrow> string" where
  "left_padded_ts_code code =
     replicate (6 - length code) (CHR ''0'') @ code @
     (if startswith code [''60'', ''68'', ''9''] then ''.SH'' else ''.SZ'')"

definition signed :: "string \<Rightarrow> bool" where
  "signed s = (case s of [] \<Rightarrow> False | c # _ \<Rightarrow> c = CHR ''+'' \<or> c = CHR ''-'')"


section \<open>Configuration values\<close>

text \<open>
  A selector configuration is a \<^verbatim>\<open>Dict[str, Any]\<close> read by \<^verbatim>\<open>json.load\<close>: its values are
  JSON values.  A dictionary is the association list of its items, in insertion order,
  with distinct keys.
\<close>

datatype json =
    JNull
  | JBool bool
  | JInt int
  | JFloat real
  | JStr string
  | JList "json list"
  | JObj "(string \<times> json) list"

type_synonym pydict = "(string \<times> json) list"

text \<open>\<^verbatim>\<open>d.get(key)\<close>, with \<^verbatim>\<open>None\<close> for a missing key.\<close>

definition dict_get :: "pydict \<Rightarrow> string \<Rightarrow> json option" where
  "dict_get d k = map_of d k"

text \<open>\<^verbatim>\<open>d.get(key, default)\<close>.\<close>

definition dict_get_default :: "pydict \<Rightarrow> string \<Rightarrow> json \<Rightarrow> json" where
  "dict_get_default d k dflt = (case dict_get d k of None \<Rightarrow> dflt | Some v \<Rightarrow> v)"

text \<open>Python truth value of a decoded JSON value (\<^verbatim>\<open>not v\<close> is its negation).\<close>

fun truthy :: "json \<Rightarrow> bool" where
  "truthy JNull = False"
| "truthy (JBool b) = b"
| "truthy (JInt i) = (i \<noteq> 0)"
| "truthy (JFloat r) = (r \<noteq> 0)"
| "truthy (JStr s) = (s \<noteq> [])"
| "truthy (JList xs) = (xs \<noteq> [])"
| "truthy (JObj kvs) = (kvs \<noteq> [])"

text \<open>The name of the Python type of a decoded JSON value, as error messages print it.\<close>

fun type_name :: "json \<Rightarrow> string" where
  "type_name JNull = ''NoneType''"
| "type_name (JBool b) = ''bool''"
| "type_name (JInt i) = ''int''"
| "type_name (JFloat r) = ''float''"
| "type_name (JStr s) = ''str''"
| "type_name (JList xs) = ''list''"
| "type_name (JObj kvs) = ''dict''"


section \<open>Exceptions\<close>

text \<open>
  The exceptions of the modelled code, all subclasses of \<^verbatim>\<open>Exception\<close>.  The fields of a
  constructor are the values interpolated into the message.  \<open>Raised\<close> is an exception
  raised by code that is not in these files (a selector's constructor or \<^verbatim>\<open>select\<close> method,
  \<^verbatim>\<open>pd.to_datetime\<close>, the data-provider client).
\<close>

datatype load_failure =
    ModuleNotFoundError
  | AttributeError string

datatype exn =
    ValueError_missing_class
  | ImportError_cannot_load json load_failure
  | TypeError_attribute_name string
  | TypeError_not_a_mapping string
  | TypeError_compare string string
  | AttributeError_date string
  | ValueError_missing_date
  | ValueError_future_date
  | Raised string


section \<open>Selector instantiation (select.py, instantiate\_selector)\<close>

text \<open>
  The module \<^verbatim>\<open>stocktradebyz.selector\<close> is not among the source files; it is a parameter.
  \<open>None\<close> is a module that cannot be imported; otherwise the module maps an attribute
  name to what calling that attribute with keyword arguments does: raise, or return an
  object of type \<open>'sel\<close>.
\<close>

type_synonym 'sel module = "(string \<Rightarrow> (pydict \<Rightarrow> exn + 'sel) option) option"

text \<open>
  \<^verbatim>\<open>
  cls_name: str = cfg.get("class")
  if not cls_name:
      raise ValueError(...)
  try:
      module = importlib.import_module("stocktradebyz.selector")
      cls = getattr(module, cls_name)
  except (ModuleNotFoundError, AttributeError) as e:
      raise ImportError(f"... stocktradebyz.selector.{cls_name}: {e}") from e
  params = cfg.get("params", {})
  return cfg.get("alias", cls_name), cls(**params)
  \<close>
  \<^verbatim>\<open>getattr\<close> with a name that is not a string raises \<^verbatim>\<open>TypeError\<close>, which the
  \<^verbatim>\<open>except\<close> clause does not catch; \<^verbatim>\<open>cls(**params)\<close> with \<^verbatim>\<open>params\<close> not a mapping raises
  \<^verbatim>\<open>TypeError\<close> before \<^verbatim>\<open>cls\<close> is called.  Both messages print the name of the type.
\<close>

definition instantiate_selector :: "'sel module \<Rightarrow> pydict \<Rightarrow> exn + (json \<times> 'sel)" where
  "instantiate_selector modl cfg =
     (let cls_name = dict_get_default cfg ''class'' JNull in
      if \<not> truthy cls_name then Inl ValueError_missing_class
      else case modl of
        None \<Rightarrow> Inl (ImportError_cannot_load cls_name ModuleNotFoundError)
      | Some attrs \<Rightarrow>
          (case cls_name of
             JStr name \<Rightarrow>
               (case attrs name of
                  None \<Rightarrow> Inl (ImportError_cannot_load cls_name (AttributeError name))
                | Some cls \<Rightarrow>
                    (case dict_get_default cfg ''params'' (JObj []) of
                       JObj params \<Rightarrow>
                         (case cls params of
                            Inl e \<Rightarrow> Inl e
                          | Inr selector \<Rightarrow>
                              Inr (dict_get_default cfg ''alias'' cls_name, selector))
                     | p \<Rightarrow> Inl (TypeError_not_a_mapping (type_name p))))
           | v \<Rightarrow> Inl (TypeError_attribute_name (type_name v))))"

text \<open>\<^verbatim>\<open>cfg.get("activate", True) is False\<close>: only the JSON value \<^verbatim>\<open>false\<close> is \<^verbatim>\<open>False\<close>.\<close>

definition deactivated :: "pydict \<Rightarrow> bool" where
  "deactivated cfg =
     (case dict_get_default cfg ''activate'' (JBool True) of JBool b \<Rightarrow> \<not> b | _ \<Rightarrow> False)"


section \<open>Price history\<close>

text \<open>
  A pandas timestamp is a number of nanoseconds since the epoch, or \<^verbatim>\<open>NaT\<close> (missing).
  Every ordering comparison of \<^verbatim>\<open>NaT\<close> with a timestamp is false.
\<close>

datatype timestamp = NaT | Timestamp int

fun ts_gt :: "timestamp \<Rightarrow> timestamp \<Rightarrow> bool" where
  "ts_gt (Timestamp a) (Timestamp b) = (b < a)"
| "ts_gt _ _ = False"

definition ns_per_day :: int where
  "ns_per_day = 86400000000000"

text \<open>
  \<^verbatim>\<open>trade_date.date()\<close>: the calendar day of a timestamp (a day number); \<^verbatim>\<open>NaT.date()\<close> is
  \<^verbatim>\<open>NaT\<close> again and does not raise.
\<close>

datatype day = NaT_day | Day int

fun date_of :: "timestamp \<Rightarrow> day" where
  "date_of NaT = NaT_day"
| "date_of (Timestamp t) = Day (t div ns_per_day)"

record bar =
  date :: timestamp
  "open" :: real
  high :: real
  low :: real
  close :: real
  volume :: real

type_synonym frame = "bar list"

text \<open>The universe: the dictionary from instrument code to frame, in insertion order.\<close>

type_synonym universe = "(string \<times> frame) list"

text \<open>The timestamps of a date column that are not \<^verbatim>\<open>NaT\<close>.\<close>

fun stamps :: "timestamp list \<Rightarrow> int list" where
  "stamps [] = []"
| "stamps (NaT # ts) = stamps ts"
| "stamps (Timestamp t # ts) = t # stamps ts"

text \<open>
  \<^verbatim>\<open>df["date"].max()\<close>: the largest timestamp that is not missing, and \<^verbatim>\<open>NaT\<close> if the column
  has rows but every date is missing.  A frame without rows (a file with a header only)
  has a date column that was never parsed as dates, and its maximum is the float
  \<^verbatim>\<open>nan\<close>.
\<close>

datatype scalar = Stamp timestamp | Float_nan

definition date_max :: "frame \<Rightarrow> scalar" where
  "date_max df =
     (if df = [] then Float_nan
      else case stamps (map date df) of
             [] \<Rightarrow> Stamp NaT
           | t # ts \<Rightarrow> Stamp (Timestamp (fold max ts t)))"

text \<open>
  \<^verbatim>\<open>a > b\<close> on these values: timestamps compare as above, \<^verbatim>\<open>nan > nan\<close> is false, and a
  timestamp (or \<^verbatim>\<open>NaT\<close>) does not compare with a float: \<^verbatim>\<open>TypeError\<close>.
\<close>

fun type_of :: "scalar \<Rightarrow> string" where
  "type_of (Stamp NaT) = ''NaTType''"
| "type_of (Stamp (Timestamp t)) = ''Timestamp''"
| "type_of Float_nan = ''float''"

fun py_gt :: "scalar \<Rightarrow> scalar \<Rightarrow> exn + bool" where
  "py_gt (Stamp a) (Stamp b) = Inr (ts_gt a b)"
| "py_gt Float_nan Float_nan = Inr False"
| "py_gt a b = Inl (TypeError_compare (type_of a) (type_of b))"

text \<open>
  Python's builtin \<^verbatim>\<open>max\<close> over a non-empty iterable: it keeps the first item and replaces
  it by a later item only when \<^verbatim>\<open>item > current\<close> holds; an exception of the comparison
  ends it.
\<close>

fun py_max :: "scalar \<Rightarrow> scalar list \<Rightarrow> exn + scalar" where
  "py_max cur [] = Inr cur"
| "py_max cur (item # rest) =
     (case py_gt item cur of
        Inl e \<Rightarrow> Inl e
      | Inr b \<Rightarrow> py_max (if b then item else cur) rest)"

text \<open>\<^verbatim>\<open>max(df["date"].max() for df in data.values())\<close>; \<^verbatim>\<open>max\<close> of nothing raises.\<close>

definition latest_date :: "universe \<Rightarrow> exn + scalar" where
  "latest_date data =
     (case data of
        [] \<Rightarrow> Inl (Raised ''max() arg is an empty sequence'')
      | (code, df) # rest \<Rightarrow> py_max (date_max df) (map (\<lambda>(c, d). date_max d) rest))"


section \<open>Enrichment lookups (select.py, get\_stock\_basic\_info)\<close>

text \<open>
  The data-provider client of select.py is module-level state: \<^verbatim>\<open>ts_token\<close> is a constant
  of the module, \<^verbatim>\<open>pro = ts.pro_api()\<close> is created when the module is imported, and
  \<^verbatim>\<open>get_stock_basic_info(picks)\<close> reads \<^verbatim>\<open>pro\<close> as a global.  A query returns a frame, of
  which the code reads the first row when the frame is not empty (\<open>None\<close> is an empty
  frame), or raises.
\<close>

record 'r client =
  stock_basic :: "string \<Rightarrow> exn + 'r option"
  daily_basic :: "string \<Rightarrow> exn + 'r option"
  stock_company :: "string \<Rightarrow> exn + 'r option"

record 'r globals =
  ts_token :: string
  pro :: "'r client"

text \<open>
  What a run does that can be observed: its log lines, and its calls into the selector
  module (\<open>Call_instantiate\<close> is line 209, \<open>Call_select\<close> is line 214; they are recorded so
  that one can say which entries are constructed and evaluated).  \<open>Selection_result\<close> is
  the block of lines 217 to 221: alias, \<^verbatim>\<open>trade_date.date()\<close>, the picks (whose length is
  the logged count).
  \<open>Info_stock\<close> is the block of lines 126 to 156 for one code, formatted from the first
  rows of the three query results.
\<close>

datatype 'r event =
    Error_no_data
  | Info_latest_date day
  | Call_instantiate pydict
  | Error_skip_config pydict exn
  | Call_select json
  | Selection_result json day "string list"
  | Info_basic_header
  | Info_stock string "'r option" "'r option" "'r option"
  | Warning_basic_failed string exn

text \<open>How a run ends: normally, by \<^verbatim>\<open>sys.exit\<close>, or by an exception nothing catches.\<close>

datatype ending = Completed | SysExit int | Uncaught exn

definition log_then ::
    "'r event list \<Rightarrow> 'r event list \<times> ending \<Rightarrow> 'r event list \<times> ending" where
  "log_then evs r = (evs @ fst r, snd r)"

text \<open>
  The body of the loop over \<^verbatim>\<open>picks\<close> (lines 114 to 160): the three queries are made first;
  an exception of any of them is caught, logged as a warning, and the loop continues.
\<close>

definition basic_info :: "'r client \<Rightarrow> string \<Rightarrow> 'r event" where
  "basic_info p code =
     (let ts_code = to_ts_code_select code in
      case stock_basic p ts_code of
        Inl e \<Rightarrow> Warning_basic_failed code e
      | Inr b \<Rightarrow>
          (case daily_basic p ts_code of
             Inl e \<Rightarrow> Warning_basic_failed code e
           | Inr d \<Rightarrow>
               (case stock_company p ts_code of
                  Inl e \<Rightarrow> Warning_basic_failed code e
                | Inr c \<Rightarrow> Info_stock code b d c)))"

definition get_stock_basic_info :: "'r globals \<Rightarrow> string list \<Rightarrow> 'r event list" where
  "get_stock_basic_info g picks =
     (if picks = [] then [] else Info_basic_header # map (basic_info (pro g)) picks)"


section \<open>The runner (select.py, main)\<close>

text \<open>
  The loop of lines 205 to 225.  The \<^verbatim>\<open>select\<close> method of the constructed object is a
  parameter (it lives in the selector module); it returns the picks or raises.  Only
  \<^verbatim>\<open>instantiate_selector\<close> is inside the \<^verbatim>\<open>try\<close>: an exception of \<^verbatim>\<open>select\<close> ends the run.
\<close>

fun run_selectors ::
    "'sel module \<Rightarrow> ('sel \<Rightarrow> timestamp \<Rightarrow> universe \<Rightarrow> exn + string list) \<Rightarrow> 'r globals \<Rightarrow>
     timestamp \<Rightarrow> universe \<Rightarrow> pydict list \<Rightarrow> 'r event list \<times> ending" where
  "run_selectors modl select g trade_date data [] = ([], Completed)"
| "run_selectors modl select g trade_date data (cfg # cfgs) =
     (if deactivated cfg then run_selectors modl select g trade_date data cfgs
      else case instantiate_selector modl cfg of
        Inl e \<Rightarrow>
          log_then [Call_instantiate cfg, Error_skip_config cfg e]
            (run_selectors modl select g trade_date data cfgs)
      | Inr (alias, selector) \<Rightarrow>
          (case select selector trade_date data of
             Inl e \<Rightarrow> ([Call_instantiate cfg, Call_select alias], Uncaught e)
           | Inr picks \<Rightarrow>
               log_then
                 ([Call_instantiate cfg, Call_select alias,
                   Selection_result alias (date_of trade_date) picks]
                   @ (if picks \<noteq> [] then get_stock_basic_info g picks else []))
                 (run_selectors modl select g trade_date data cfgs)))"

text \<open>
  \<^verbatim>\<open>main\<close> from line 188 on: \<open>data\<close> is the result of \<^verbatim>\<open>load_data\<close>, \<open>args_date\<close> the \<^verbatim>\<open>--date\<close>
  argument (\<open>None\<close> when not given), \<open>selector_cfgs\<close> the list \<^verbatim>\<open>load_config\<close> returns, and
  \<open>to_datetime\<close> is \<^verbatim>\<open>pd.to_datetime\<close> on the argument.  \<^verbatim>\<open>if args.date\<close> holds for a
  non-empty string.  Without it the trade date is the maximum of line 196 and line 199
  logs its date; a float has no \<^verbatim>\<open>date\<close> method.
\<close>

definition main ::
    "'sel module \<Rightarrow> ('sel \<Rightarrow> timestamp \<Rightarrow> universe \<Rightarrow> exn + string list) \<Rightarrow>
     (string \<Rightarrow> exn + timestamp) \<Rightarrow> 'r globals \<Rightarrow>
     string option \<Rightarrow> universe \<Rightarrow> pydict list \<Rightarrow> 'r event list \<times> ending" where
  "main modl select to_datetime g args_date data selector_cfgs =
     (if data = [] then ([Error_no_data], SysExit 1)
      else case (case args_date of
                   None \<Rightarrow> None
                 | Some s \<Rightarrow> if s \<noteq> [] then Some s else None) of
        Some s \<Rightarrow>
          (case to_datetime s of
             Inl e \<Rightarrow> ([], Uncaught e)
           | Inr trade_date \<Rightarrow> run_selectors modl select g trade_date data selector_cfgs)
      | None \<Rightarrow>
          (case latest_date data of
             Inl e \<Rightarrow> ([], Uncaught e)
           | Inr Float_nan \<Rightarrow> ([], Uncaught (AttributeError_date ''float''))
           | Inr (Stamp trade_date) \<Rightarrow>
               log_then [Info_latest_date (date_of trade_date)]
                 (run_selectors modl select g trade_date data selector_cfgs)))"


section \<open>Validation of fetched history (fetch\_kline.py, validate)\<close>

text \<open>
  \<^verbatim>\<open>df.drop_duplicates(subset="date")\<close> keeps, for each date, the first row that has it
  (missing dates count as equal to each other).
\<close>

fun drop_duplicates :: "frame \<Rightarrow> frame" where
  "drop_duplicates [] = []"
| "drop_duplicates (r # rs) = r # drop_duplicates (filter (\<lambda>s. date s \<noteq> date r) rs)"

definition stamp :: "bar \<Rightarrow> int" where
  "stamp r = (case date r of NaT \<Rightarrow> 0 | Timestamp t \<Rightarrow> t)"

text \<open>
  \<^verbatim>\<open>df.sort_values("date")\<close>: ascending, rows with a missing date last.  The result is
  index-free, which is \<^verbatim>\<open>reset_index(drop=True)\<close>.
\<close>

definition sort_values :: "frame \<Rightarrow> frame" where
  "sort_values df =
     sort_key stamp (filter (\<lambda>r. date r \<noteq> NaT) df) @ filter (\<lambda>r. date r = NaT) df"

text \<open>
  \<^verbatim>\<open>
  df = df.drop_duplicates(subset="date").sort_values("date").reset_index(drop=True)
  if df["date"].isna().any(): raise ValueError(...)
  if (df["date"] > pd.Timestamp.today()).any(): raise ValueError(...)
  return df
  \<close>
  \<open>today\<close> is the value of \<^verbatim>\<open>pd.Timestamp.today()\<close>, the time of the call.
\<close>

definition validate :: "int \<Rightarrow> frame \<Rightarrow> exn + frame" where
  "validate today df =
     (let df' = sort_values (drop_duplicates df) in
      if list_ex (\<lambda>r. date r = NaT) df' then Inl ValueError_missing_date
      else if list_ex (\<lambda>r. ts_gt (date r) (Timestamp today)) df' then Inl ValueError_future_date
      else Inr df')"


section \<open>Reading a run\<close>

text \<open>The entries for which the constructor was tried, the entries skipped with their
  error, the aliases whose selector was evaluated, and the reports, each in log order.\<close>

definition instantiate_calls :: "'r event list \<Rightarrow> pydict list" where
  "instantiate_calls es = concat (map (\<lambda>e. case e of Call_instantiate c \<Rightarrow> [c] | _ \<Rightarrow> []) es)"

definition skip_errors :: "'r event list \<Rightarrow> (pydict \<times> exn) list" where
  "skip_errors es = concat (map (\<lambda>e. case e of Error_skip_config c x \<Rightarrow> [(c, x)] | _ \<Rightarrow> []) es)"

definition select_calls :: "'r event list \<Rightarrow> json list" where
  "select_calls es = concat (map (\<lambda>e. case e of Call_select a \<Rightarrow> [a] | _ \<Rightarrow> []) es)"

definition reports :: "'r event list \<Rightarrow> (json \<times> day \<times> string list) list" where
  "reports es = concat (map (\<lambda>e. case e of Selection_result a d p \<Rightarrow> [(a, d, p)] | _ \<Rightarrow> []) es)"

text \<open>The events of the enrichment lookups.\<close>

definition enrichment :: "'r event \<Rightarrow> bool" where
  "enrichment e =
     (case e of Info_basic_header \<Rightarrow> True | Info_stock c b d k \<Rightarrow> True
      | Warning_basic_failed c x \<Rightarrow> True | _ \<Rightarrow> False)"

text \<open>An entry is activated unless the loop skips it at line 206.\<close>

definition activated :: "pydict list \<Rightarrow> pydict list" where
  "activated cfgs = filter (\<lambda>c. \<not> deactivated c) cfgs"

text \<open>Instantiation of an entry fails when \<^verbatim>\<open>instantiate_selector\<close> raises.\<close>

definition fails :: "'sel module \<Rightarrow> pydict \<Rightarrow> bool" where
  "fails modl cfg = (case instantiate_selector modl cfg of Inl e \<Rightarrow> True | Inr r \<Rightarrow> False)"

text \<open>The activated entries whose instantiation fails, with the exception raised.\<close>

definition failures :: "'sel module \<Rightarrow> pydict list \<Rightarrow> (pydict \<times> exn) list" where
  "failures modl cfgs =
     concat (map (\<lambda>c. case instantiate_selector modl c of Inl e \<Rightarrow> [(c, e)] | Inr r \<Rightarrow> [])
       (activated cfgs))"

text \<open>The activated entries that are constructed: alias and selector, in list order.\<close>

definition constructed :: "'sel module \<Rightarrow> pydict list \<Rightarrow> (json \<times> 'sel) list" where
  "constructed modl cfgs =
     concat (map (\<lambda>c. case instantiate_selector modl c of Inl e \<Rightarrow> [] | Inr r \<Rightarrow> [r])
       (activated cfgs))"

text \<open>A log without the events of the entries whose instantiation fails.\<close>

definition without_failures :: "'sel module \<Rightarrow> 'r event list \<Rightarrow> 'r event list" where
  "without_failures modl es =
     filter (\<lambda>e. case e of Error_skip_config c x \<Rightarrow> False
                | Call_instantiate c \<Rightarrow> \<not> fails modl c | _ \<Rightarrow> True) es"




section \<open>The raw stochastic value\<close>

text \<open>
  Modelled from the spec: \<^verbatim>\<open>compute_rsv\<close> is defined in the selector module, which is not
  among the source files (only calls of it are, in the tests).  The spec (4.1): at
  index \<open>i\<close>, \<open>(close[i] - min(low[i-n+1..i])) / (max(high[i-n+1..i]) - min(low[i-n+1..i])) * 100\<close>;
  undefined for \<open>i < n-1\<close>; undefined when the high/low range is zero.  The result is
  aligned by index to the series.  A window of length 0 has no minimum: the entry is
  undefined.
\<close>

definition window :: "frame \<Rightarrow> nat \<Rightarrow> nat \<Rightarrow> frame" where
  "window series n i = take n (drop (i + 1 - n) series)"

definition rolling_min_low :: "frame \<Rightarrow> nat \<Rightarrow> nat \<Rightarrow> real" where
  "rolling_min_low series n i = Min (set (map low (window series n i)))"

definition rolling_max_high :: "frame \<Rightarrow> nat \<Rightarrow> nat \<Rightarrow> real" where
  "rolling_max_high series n i = Max (set (map high (window series n i)))"

definition rsv_at :: "frame \<Rightarrow> nat \<Rightarrow> nat \<Rightarrow> real option" where
  "rsv_at series n i =
     (if n = 0 \<or> i + 1 < n \<or> length series \<le> i then None
      else
        let lo = rolling_min_low series n i; hi = rolling_max_high series n i in
        if hi = lo then None
        else Some ((close (series ! i) - lo) / (hi - lo) * 100))"

definition compute_rsv :: "frame \<Rightarrow> nat \<Rightarrow> real option list" where
  "compute_rsv series n = map (rsv_at series n) [0..<length series]"

text \<open>The invariant of a bar (spec, 3).\<close>

definition bar_ok :: "bar \<Rightarrow> bool" where
  "bar_ok b =
     (max (bar.open b) (max (close b) (low b)) \<le> high b \<and>
      low b \<le> min (bar.open b) (min (close b) (high b)) \<and> 0 \<le> volume b)"


section \<open>Example inputs\<close>

text \<open>
  A selector module with one class, whose constructor wants an integer \<^verbatim>\<open>j_threshold\<close>; a
  \<^verbatim>\<open>select\<close> that picks every instrument with at least one bar; a client whose company
  query times out for one code; a universe of two instruments; and configuration entries.
\<close>

definition example_module :: "int module" where
  "example_module =
     Some (\<lambda>name.
       if name = ''BBIKDJSelector''
       then Some (\<lambda>params. case map_of params ''j_threshold'' of
                    Some (JInt j) \<Rightarrow> Inr j
                  | _ \<Rightarrow> Inl (Raised ''TypeError''))
       else None)"

definition example_select :: "int \<Rightarrow> timestamp \<Rightarrow> universe \<Rightarrow> exn + string list" where
  "example_select s td data = Inr (map fst (filter (\<lambda>(c, df). df \<noteq> []) data))"

definition example_client :: "string \<Rightarrow> string client" where
  "example_client tag =
     \<lparr>stock_basic = (\<lambda>c. Inr (Some tag)), daily_basic = (\<lambda>c. Inr None),
      stock_company = (\<lambda>c. if c = ''000001.SZ'' then Inl (Raised ''timeout'') else Inr None)\<rparr>"

definition example_globals :: "string \<Rightarrow> string globals" where
  "example_globals tag = \<lparr>ts_token = tag, pro = example_client tag\<rparr>"

definition example_bar :: "int \<Rightarrow> bar" where
  "example_bar t = \<lparr>date = Timestamp t, open = 10, high = 12, low = 9, close = 11, volume = 100\<rparr>"

definition example_data :: universe where
  "example_data = [(''600000'', [example_bar 0, example_bar 86400000000000]),
                   (''000001'', [example_bar 172800000000000])]"

definition cfg_good :: pydict where
  "cfg_good = [(''class'', JStr ''BBIKDJSelector''), (''alias'', JStr ''b1''),
               (''params'', JObj [(''j_threshold'', JInt 1)])]"

definition cfg_no_class :: pydict where
  "cfg_no_class = [(''alias'', JStr ''x'')]"

definition cfg_unknown :: pydict where
  "cfg_unknown = [(''class'', JStr ''NoSuchSelector'')]"

definition cfg_bad_params :: pydict where
  "cfg_bad_params = [(''class'', JStr ''BBIKDJSelector''), (''params'', JObj [(''j_threshold'', JStr ''high'')])]"

definition cfg_off :: pydict where
  "cfg_off = [(''class'', JStr ''BBIKDJSelector''), (''activate'', JBool False),
              (''params'', JObj [(''j_threshold'', JInt 1)])]"

definition cfg_no_alias :: pydict where
  "cfg_no_alias = [(''class'', JStr ''BBIKDJSelector''), (''activate'', JBool True),
              (''params'', JObj [(''j_threshold'', JInt 5)])]"







text \<open>A fetched frame with a repeated date, out of order; and a short series whose last
  two bars are flat.\<close>

definition example_frame :: frame where
  "example_frame = [example_bar 5, example_bar 2, (example_bar 5)\<lparr>close := 10\<rparr>, example_bar 3]"

definition example_series :: frame where
  "example_series =
     [\<lparr>date = Timestamp 0, open = 10, high = 12, low = 9, close = 11, volume = 100\<rparr>,
      \<lparr>date = Timestamp 1, open = 10, high = 12, low = 9, close = 11, volume = 100\<rparr>,
      \<lparr>date = Timestamp 2, open = 11, high = 13, low = 10, close = 12, volume = 100\<rparr>,
      \<lparr>date = Timestamp 3, open = 5, high = 5, low = 5, close = 5, volume = 0\<rparr>,
      \<lparr>date = Timestamp 4, open = 5, high = 5, low = 5, close = 5, volume = 0\<rparr>]"


section \<open>Theorems\<close>

lemma zfill_unsigned:
  "\<not> signed s \<Longrightarrow> zfill w s = replicate (w - length s) (CHR ''0'') @ s"
  by (cases s) (auto simp: zfill_def signed_def)

lemma zfill_long: "w \<le> length s \<Longrightarrow> zfill w s = s"
  by (simp add: zfill_def)

text \<open>
  C10 (as stated, refuted): for the code \<^verbatim>\<open>-1\<close> both functions return \<^verbatim>\<open>-00001.SZ\<close>, while
  left-padding the code with zeros gives \<^verbatim>\<open>0000-1.SZ\<close>.
\<close>

theorem to_ts_code_left_pad_counterexample:
  "to_ts_code_select ''-1'' = ''-00001.SZ'' \<and>
   to_ts_code_fetch_kline ''-1'' = ''-00001.SZ'' \<and>
   left_padded_ts_code ''-1'' = ''0000-1.SZ'' \<and>
   to_ts_code_select ''-1'' \<noteq> left_padded_ts_code ''-1''"
  by (simp add: to_ts_code_select_def to_ts_code_fetch_kline_def left_padded_ts_code_def
      zfill_def startswith_def eval_nat_numeral)

text \<open>
  C10 (amended): the two definitions of \<^verbatim>\<open>_to_ts_code\<close> are extensionally equal; both return
  \<^verbatim>\<open>code.zfill(6)\<close> followed by \<^verbatim>\<open>.SH\<close> when the code starts with 60, 68 or 9 and by \<^verbatim>\<open>.SZ\<close>
  otherwise; \<^verbatim>\<open>code.zfill(6)\<close> is the code left-padded with zeros to six characters unless the
  code is shorter than six characters and starts with a sign, in which case the zeros
  follow the sign.
\<close>

theorem to_ts_code_equal:
  "to_ts_code_select code = to_ts_code_fetch_kline code \<and>
   to_ts_code_select code =
     zfill 6 code @ (if prefix ''60'' code \<or> prefix ''68'' code \<or> prefix ''9'' code
                     then ''.SH'' else ''.SZ'') \<and>
   (\<not> signed code \<or> 6 \<le> length code \<longrightarrow>
      to_ts_code_select code = left_padded_ts_code code) \<and>
   (signed code \<and> length code < 6 \<longrightarrow>
      zfill 6 code = hd code # replicate (6 - length code) (CHR ''0'') @ tl code)"
proof -
  have eq: "to_ts_code_select code = to_ts_code_fetch_kline code"
    by (simp add: to_ts_code_select_def to_ts_code_fetch_kline_def)
  have form: "to_ts_code_select code =
     zfill 6 code @ (if prefix ''60'' code \<or> prefix ''68'' code \<or> prefix ''9'' code
                     then ''.SH'' else ''.SZ'')"
    by (simp add: to_ts_code_select_def startswith_def)
  have pad: "to_ts_code_select code = left_padded_ts_code code"
    if "\<not> signed code \<or> 6 \<le> length code"
  proof -
    have "zfill 6 code = replicate (6 - length code) (CHR ''0'') @ code"
      using that zfill_unsigned [of code 6] zfill_long [of 6 code] by auto
    then show ?thesis
      by (simp add: to_ts_code_select_def left_padded_ts_code_def)
  qed
  have sgn: "zfill 6 code = hd code # replicate (6 - length code) (CHR ''0'') @ tl code"
    if "signed code \<and> length code < 6"
    using that by (cases code) (auto simp: zfill_def signed_def)
  from eq form pad sgn show ?thesis by blast
qed

theorem to_ts_code_equal_witness:
  "\<not> signed ''600519'' \<and> to_ts_code_select ''600519'' = left_padded_ts_code ''600519'' \<and>
   to_ts_code_select ''600519'' = ''600519.SH'' \<and>
   signed ''+7'' \<and> length ''+7'' < 6 \<and> zfill 6 ''+7'' = ''+00007''"
  using to_ts_code_equal [of "''600519''"] to_ts_code_equal [of "''+7''"]
  by (simp add: signed_def left_padded_ts_code_def to_ts_code_fetch_kline_def
      startswith_def zfill_def eval_nat_numeral)


subsection \<open>Evaluation of the example inputs\<close>

lemmas ex_defs = example_module_def example_select_def example_client_def example_globals_def
  example_bar_def example_data_def cfg_good_def cfg_no_class_def cfg_unknown_def cfg_bad_params_def
  cfg_off_def cfg_no_alias_def

lemmas run_defs = instantiate_selector_def dict_get_default_def dict_get_def deactivated_def
  log_then_def get_stock_basic_info_def basic_info_def to_ts_code_select_def startswith_def zfill_def
  ns_per_day_def


subsection \<open>Reading the log of the loop\<close>

lemma enrichment_get_stock_basic_info:
  "e \<in> set (get_stock_basic_info g picks) \<Longrightarrow> enrichment e"
  by (auto simp: get_stock_basic_info_def basic_info_def enrichment_def Let_def
           split: if_splits sum.splits)

lemma instantiate_calls_simps [simp]:
  "instantiate_calls [] = []"
  "instantiate_calls (e # es) = (case e of Call_instantiate c \<Rightarrow> [c] | _ \<Rightarrow> []) @ instantiate_calls es"
  "instantiate_calls (xs @ ys) = instantiate_calls xs @ instantiate_calls ys"
  by (simp_all add: instantiate_calls_def)

lemma instantiate_calls_enrichment:
  "\<forall>e\<in>set es. enrichment e \<Longrightarrow> instantiate_calls es = []"
  by (induction es) (auto simp: enrichment_def split: event.splits)

lemma instantiate_calls_info [simp]: "instantiate_calls (get_stock_basic_info g picks) = []"
  by (simp add: instantiate_calls_enrichment enrichment_get_stock_basic_info)




lemma select_calls_simps [simp]:
  "select_calls [] = []"
  "select_calls (e # es) = (case e of Call_select a \<Rightarrow> [a] | _ \<Rightarrow> []) @ select_calls es"
  "select_calls (xs @ ys) = select_calls xs @ select_calls ys"
  by (simp_all add: select_calls_def)

lemma select_calls_enrichment:
  "\<forall>e\<in>set es. enrichment e \<Longrightarrow> select_calls es = []"
  by (induction es) (auto simp: enrichment_def split: event.splits)

lemma select_calls_info [simp]: "select_calls (get_stock_basic_info g picks) = []"
  by (simp add: select_calls_enrichment enrichment_get_stock_basic_info)

lemma skip_errors_simps [simp]:
  "skip_errors [] = []"
  "skip_errors (e # es) = (case e of Error_skip_config c x \<Rightarrow> [(c, x)] | _ \<Rightarrow> []) @ skip_errors es"
  "skip_errors (xs @ ys) = skip_errors xs @ skip_errors ys"
  by (simp_all add: skip_errors_def)

lemma skip_errors_enrichment:
  "\<forall>e\<in>set es. enrichment e \<Longrightarrow> skip_errors es = []"
  by (induction es) (auto simp: enrichment_def split: event.splits)

lemma skip_errors_info [simp]: "skip_errors (get_stock_basic_info g picks) = []"
  by (simp add: skip_errors_enrichment enrichment_get_stock_basic_info)

lemma reports_simps [simp]:
  "reports [] = []"
  "reports (e # es) = (case e of Selection_result a d p \<Rightarrow> [(a, d, p)] | _ \<Rightarrow> []) @ reports es"
  "reports (xs @ ys) = reports xs @ reports ys"
  by (simp_all add: reports_def)

lemma reports_enrichment:
  "\<forall>e\<in>set es. enrichment e \<Longrightarrow> reports es = []"
  by (induction es) (auto simp: enrichment_def split: event.splits)

lemma reports_info [simp]: "reports (get_stock_basic_info g picks) = []"
  by (simp add: reports_enrichment enrichment_get_stock_basic_info)

lemma constructed_simps [simp]:
  "constructed modl [] = []"
  "constructed modl (c # cs) =
     (if deactivated c then constructed modl cs
      else (case instantiate_selector modl c of Inl e \<Rightarrow> [] | Inr r \<Rightarrow> [r]) @ constructed modl cs)"
  by (simp_all add: constructed_def activated_def)

lemma failures_simps [simp]:
  "failures modl [] = []"
  "failures modl (c # cs) =
     (if deactivated c then failures modl cs
      else (case instantiate_selector modl c of Inl e \<Rightarrow> [(c, e)] | Inr r \<Rightarrow> []) @ failures modl cs)"
  by (simp_all add: failures_def activated_def)


lemma select_calls_prefix:
  "prefix (select_calls (fst (run_selectors modl select g td data cfgs))) (map fst (constructed modl cfgs))"
  by (induction cfgs) (auto simp: log_then_def split: sum.splits prod.splits if_splits)



lemma reports_completed:
  "snd (run_selectors modl select g td data cfgs) = Completed \<Longrightarrow>
   map (\<lambda>(a, d, p). (a, d, Inr p)) (reports (fst (run_selectors modl select g td data cfgs)))
   = map (\<lambda>(a, s). (a, date_of td, select s td data)) (constructed modl cfgs)"
  by (induction cfgs) (auto simp: log_then_def split: sum.splits prod.splits if_splits)


lemma without_failures_simps [simp]:
  "without_failures modl [] = []"
  "without_failures modl (Call_instantiate c # es) =
     (if fails modl c then without_failures modl es else Call_instantiate c # without_failures modl es)"
  "without_failures modl (Error_skip_config c x # es) = without_failures modl es"
  "without_failures modl (Call_select a # es) = Call_select a # without_failures modl es"
  "without_failures modl (Selection_result a d p # es) =
     Selection_result a d p # without_failures modl es"
  "without_failures modl (xs @ ys) = without_failures modl xs @ without_failures modl ys"
  by (simp_all add: without_failures_def)

lemma without_failures_enrichment:
  "\<forall>e\<in>set es. enrichment e \<Longrightarrow> without_failures modl es = es"
  by (induction es) (auto simp: enrichment_def without_failures_def split: event.splits)

lemma without_failures_info [simp]:
  "without_failures modl (get_stock_basic_info g picks) = get_stock_basic_info g picks"
  by (simp add: without_failures_enrichment enrichment_get_stock_basic_info)


lemma run_completed_iff:
  "snd (run_selectors modl select g td data cfgs) = Completed \<longleftrightarrow>
   (\<forall>(a, s)\<in>set (constructed modl cfgs). \<exists>p. select s td data = Inr p)"
  by (induction cfgs) (auto simp: log_then_def split: sum.splits prod.splits if_splits)

lemma run_completes:
  "\<forall>s. \<exists>p. select s td data = Inr p \<Longrightarrow>
   snd (run_selectors modl select g td data cfgs) = Completed"
  by (auto simp: run_completed_iff)


subsection \<open>Selector instantiation\<close>



text \<open>
  C6: fields other than \<^verbatim>\<open>class\<close>, \<^verbatim>\<open>alias\<close>, \<^verbatim>\<open>params\<close> and \<^verbatim>\<open>activate\<close> are ignored: two
  entries that agree on these four keys give the same result of \<^verbatim>\<open>instantiate_selector\<close>
  (the same alias and selector, or the same error) and the same activation decision.
\<close>

theorem unrecognized_fields_ignored:
  assumes "\<forall>k \<in> {''class'', ''alias'', ''params'', ''activate''}. dict_get cfg k = dict_get cfg' k"
  shows "instantiate_selector modl cfg = instantiate_selector modl cfg' \<and>
         deactivated cfg = deactivated cfg'"
proof -
  have c: "dict_get_default cfg ''class'' d = dict_get_default cfg' ''class'' d"
    and a: "dict_get_default cfg ''alias'' d = dict_get_default cfg' ''alias'' d"
    and p: "dict_get_default cfg ''params'' d = dict_get_default cfg' ''params'' d"
    and f: "dict_get_default cfg ''activate'' d = dict_get_default cfg' ''activate'' d" for d
    using assms by (simp_all add: dict_get_default_def)
  show ?thesis
    unfolding instantiate_selector_def deactivated_def c a p f by simp
qed

theorem unrecognized_fields_ignored_witness:
  "instantiate_selector example_module ((''comment'', JStr ''try me'') # cfg_good @ [(''rank'', JInt 3)])
     = instantiate_selector example_module cfg_good \<and>
   deactivated ((''comment'', JStr ''try me'') # cfg_good @ [(''rank'', JInt 3)]) = deactivated cfg_good \<and>
   instantiate_selector example_module cfg_good = Inr (JStr ''b1'', 1)"
  using unrecognized_fields_ignored
    [of "(''comment'', JStr ''try me'') # cfg_good @ [(''rank'', JInt 3)]" cfg_good example_module]
  by (simp add: ex_defs run_defs)


subsection \<open>The runner\<close>










lemma reports_length_completed:
  "snd (run_selectors modl select g td data cfgs) = Completed \<Longrightarrow>
   length (reports (fst (run_selectors modl select g td data cfgs))) = length (constructed modl cfgs)"
  using reports_completed [of modl select g td data cfgs, THEN arg_cong, of length]
  by simp









subsection \<open>The data-provider client\<close>

lemma enrichment_simps [simp]:
  "\<not> enrichment Error_no_data"
  "\<not> enrichment (Info_latest_date d)"
  "\<not> enrichment (Call_instantiate c)"
  "\<not> enrichment (Error_skip_config c x)"
  "\<not> enrichment (Call_select a)"
  "\<not> enrichment (Selection_result a d p)"
  "enrichment Info_basic_header"
  "enrichment (Info_stock code b1 b2 b3)"
  "enrichment (Warning_basic_failed code x)"
  by (simp_all add: enrichment_def)

lemma visible_info [simp]:
  "filter (\<lambda>e. \<not> enrichment e) (get_stock_basic_info g picks) = []"
  by (simp add: enrichment_get_stock_basic_info)

lemma run_selectors_client:
  "snd (run_selectors modl select g1 td data cfgs) = snd (run_selectors modl select g2 td data cfgs) \<and>
   filter (\<lambda>e. \<not> enrichment e) (fst (run_selectors modl select g1 td data cfgs)) =
   filter (\<lambda>e. \<not> enrichment e) (fst (run_selectors modl select g2 td data cfgs))"
  by (induction cfgs) (auto simp: log_then_def split: sum.splits prod.splits)

lemma main_client:
  "snd (main modl select to_datetime g1 ad data cfgs) = snd (main modl select to_datetime g2 ad data cfgs) \<and>
   filter (\<lambda>e. \<not> enrichment e) (fst (main modl select to_datetime g1 ad data cfgs)) =
   filter (\<lambda>e. \<not> enrichment e) (fst (main modl select to_datetime g2 ad data cfgs))"
  using run_selectors_client [of modl select g1 _ data cfgs g2]
  by (auto simp: main_def log_then_def split: sum.splits option.splits scalar.splits)

lemma reports_visible: "reports (filter (\<lambda>e. \<not> enrichment e) es) = reports es"
  by (induction es) (auto split: event.splits)

lemma select_calls_visible: "select_calls (filter (\<lambda>e. \<not> enrichment e) es) = select_calls es"
  by (induction es) (auto split: event.splits)

text \<open>
  C8 (as stated, refuted): the client is not handed to the components that use it.
  \<^verbatim>\<open>get_stock_basic_info\<close> takes the picks only and reads the module-level \<^verbatim>\<open>pro\<close>: with the
  same picks, and \<^verbatim>\<open>main\<close> with the same configuration and universe, two values of that
  module-level state give two different logs.
\<close>

theorem global_client_counterexample:
  "get_stock_basic_info (example_globals ''a'') [''600000''] =
     [Info_basic_header, Info_stock ''600000'' (Some ''a'') None None] \<and>
   get_stock_basic_info (example_globals ''b'') [''600000''] =
     [Info_basic_header, Info_stock ''600000'' (Some ''b'') None None] \<and>
   fst (main example_module example_select (\<lambda>s. Inr NaT) (example_globals ''a'') None
          example_data [cfg_good]) \<noteq>
   fst (main example_module example_select (\<lambda>s. Inr NaT) (example_globals ''b'') None
          example_data [cfg_good])"
  by (simp add: main_def latest_date_def date_max_def ex_defs run_defs)

text \<open>
  C8 (amended): select.py keeps the data-provider client as module-level state, which
  \<^verbatim>\<open>get_stock_basic_info\<close> reads; the Pick Sets do not depend on it.  For any two values of
  the module-level state and the same configuration, universe and date argument, a run
  ends the same way, makes the same calls into the selector module and emits the same
  reports in the same order; the two logs differ at most in the enrichment lines.
\<close>

theorem picks_independent_of_client:
  "snd (main modl select to_datetime g1 ad data cfgs) =
     snd (main modl select to_datetime g2 ad data cfgs) \<and>
   filter (\<lambda>e. \<not> enrichment e) (fst (main modl select to_datetime g1 ad data cfgs)) =
     filter (\<lambda>e. \<not> enrichment e) (fst (main modl select to_datetime g2 ad data cfgs)) \<and>
   reports (fst (main modl select to_datetime g1 ad data cfgs)) =
     reports (fst (main modl select to_datetime g2 ad data cfgs)) \<and>
   select_calls (fst (main modl select to_datetime g1 ad data cfgs)) =
     select_calls (fst (main modl select to_datetime g2 ad data cfgs))"
  using main_client [of modl select to_datetime g1 ad data cfgs g2]
    reports_visible [of "fst (main modl select to_datetime g1 ad data cfgs)"]
    reports_visible [of "fst (main modl select to_datetime g2 ad data cfgs)"]
    select_calls_visible [of "fst (main modl select to_datetime g1 ad data cfgs)"]
    select_calls_visible [of "fst (main modl select to_datetime g2 ad data cfgs)"]
  by metis


subsection \<open>The default trade date\<close>












subsection \<open>Validation of fetched history\<close>

lemma find_Some_in: "find P xs = Some x \<Longrightarrow> x \<in> set xs \<and> P x"
  by (induction xs) (auto split: if_splits)

lemma drop_duplicates_find:
  "r \<in> set (drop_duplicates df) \<longleftrightarrow> find (\<lambda>s. date s = date r) df = Some r"
proof (induction df arbitrary: r rule: drop_duplicates.induct)
  case 1
  then show ?case by simp
next
  case (2 x xs)
  have f: "find (\<lambda>s. date s = date r) (filter (\<lambda>s. date s \<noteq> date x) xs) =
           find (\<lambda>s. date s = date r) xs" if "date x \<noteq> date r"
    using that by (induction xs) auto
  show ?case
  proof (cases "date x = date r")
    case True
    have "r \<notin> set (drop_duplicates (filter (\<lambda>s. date s \<noteq> date x) xs))"
    proof
      assume "r \<in> set (drop_duplicates (filter (\<lambda>s. date s \<noteq> date x) xs))"
      then have "find (\<lambda>s. date s = date r) (filter (\<lambda>s. date s \<noteq> date x) xs) = Some r"
        using 2 by simp
      then have "r \<in> set (filter (\<lambda>s. date s \<noteq> date x) xs)"
        using find_Some_in by fastforce
      then show False using True by simp
    qed
    then show ?thesis using True by auto
  next
    case False
    then show ?thesis using 2 [of r] f by auto
  qed
qed

lemma drop_duplicates_subset: "set (drop_duplicates df) \<subseteq> set df"
  using find_Some_in by (fastforce simp: drop_duplicates_find)

lemma drop_duplicates_dates: "date ` set (drop_duplicates df) = date ` set df"
proof
  show "date ` set (drop_duplicates df) \<subseteq> date ` set df"
    using drop_duplicates_subset by blast
  show "date ` set df \<subseteq> date ` set (drop_duplicates df)"
  proof
    fix d assume "d \<in> date ` set df"
    then obtain r where "r \<in> set df" "date r = d" by auto
    then obtain s where "find (\<lambda>s. date s = d) df = Some s"
      by (cases "find (\<lambda>s. date s = d) df") (auto simp: find_None_iff)
    moreover from this have "date s = d" using find_Some_in by fastforce
    ultimately show "d \<in> date ` set (drop_duplicates df)"
      using drop_duplicates_find [of s df] by force
  qed
qed

lemma drop_duplicates_distinct: "distinct (map date (drop_duplicates df))"
proof (induction df rule: drop_duplicates.induct)
  case 1
  then show ?case by simp
next
  case (2 x xs)
  have "date x \<notin> date ` set (filter (\<lambda>s. date s \<noteq> date x) xs)" by auto
  then have "date x \<notin> date ` set (drop_duplicates (filter (\<lambda>s. date s \<noteq> date x) xs))"
    using drop_duplicates_subset by blast
  then show ?case using 2 by simp
qed

lemma sort_values_set: "set (sort_values df) = set df"
  by (auto simp: sort_values_def)

lemma sort_values_dated:
  "\<forall>r\<in>set df. date r \<noteq> NaT \<Longrightarrow> sort_values df = sort_key stamp df"
  by (simp add: sort_values_def filter_empty_conv)

lemma stamp_inj:
  "date r \<noteq> NaT \<Longrightarrow> date s \<noteq> NaT \<Longrightarrow> stamp r = stamp s \<longleftrightarrow> date r = date s"
  by (cases "date r"; cases "date s") (auto simp: stamp_def)

lemma distinct_stamps:
  "\<forall>r\<in>set df. date r \<noteq> NaT \<Longrightarrow> distinct (map date df) \<Longrightarrow> distinct (map stamp df)"
  by (induction df) (auto simp: stamp_inj)

lemma sort_values_increasing:
  assumes "\<forall>r\<in>set df. date r \<noteq> NaT" "distinct (map date df)"
  shows "sorted_wrt (<) (map stamp (sort_values df))" "distinct (map date (sort_values df))"
proof -
  have sv: "sort_values df = sort_key stamp df" using assms(1) by (rule sort_values_dated)
  have "distinct (map stamp (sort_key stamp df))"
    using distinct_stamps [OF assms] by (simp add: distinct_map)
  moreover have "sorted (map stamp (sort_key stamp df))" by simp
  ultimately show "sorted_wrt (<) (map stamp (sort_values df))"
    using sv by (simp add: strict_sorted_iff)
  show "distinct (map date (sort_values df))"
    using assms(2) sv by (simp add: distinct_map)
qed


lemma validate_cases:
  "validate today df =
     (if \<exists>r\<in>set df. date r = NaT then Inl ValueError_missing_date
      else if \<exists>r\<in>set df. ts_gt (date r) (Timestamp today) then Inl ValueError_future_date
      else Inr (sort_values (drop_duplicates df)))"
proof -
  let ?out = "sort_values (drop_duplicates df)"
  have d: "date ` set ?out = date ` set df"
    by (simp add: sort_values_set drop_duplicates_dates)
  have "(\<exists>r\<in>set ?out. P (date r)) \<longleftrightarrow> (\<exists>r\<in>set df. P (date r))" for P
  proof
    assume "\<exists>r\<in>set ?out. P (date r)"
    then obtain r where "r \<in> set ?out" "P (date r)" by blast
    then have "date r \<in> date ` set df" using d by blast
    then obtain s where "s \<in> set df" "date s = date r" by auto
    then show "\<exists>r\<in>set df. P (date r)" using \<open>P (date r)\<close> by metis
  next
    assume "\<exists>r\<in>set df. P (date r)"
    then obtain r where "r \<in> set df" "P (date r)" by blast
    then have "date r \<in> date ` set ?out" using d by blast
    then obtain s where "s \<in> set ?out" "date s = date r" by auto
    then show "\<exists>r\<in>set ?out. P (date r)" using \<open>P (date r)\<close> by metis
  qed
  from this [of "\<lambda>d. d = NaT"] this [of "\<lambda>d. ts_gt d (Timestamp today)"]
  show ?thesis
    by (simp add: validate_def Let_def list_ex_iff)
qed

lemma example_drop_duplicates: "drop_duplicates example_frame = [example_bar 5, example_bar 2, example_bar 3]"
  by (simp add: example_frame_def example_bar_def)

lemma example_sort_values: "sort_values [example_bar 5, example_bar 2, example_bar 3] = [example_bar 2, example_bar 3, example_bar 5]"
  by (simp add: sort_values_def example_bar_def stamp_def)


lemma example_validate: "validate 9 example_frame = Inr [example_bar 2, example_bar 3, example_bar 5]"
  by (simp add: validate_def example_drop_duplicates example_sort_values) (simp add: example_bar_def)

lemma example_validate_future: "validate 4 example_frame = Inl ValueError_future_date"
  by (simp add: validate_def example_drop_duplicates example_sort_values) (simp add: example_bar_def)

lemma example_validate_missing: "validate 9 ((example_bar 1)\<lparr>date := NaT\<rparr> # example_frame) = Inl ValueError_missing_date"
  by (simp add: validate_cases)

text \<open>
  C5: \<^verbatim>\<open>validate\<close> raises if and only if some row has a missing date or a date later than
  the time of the call.  Otherwise it returns the frame without duplicate-date rows (for
  each date the first row that has it) sorted by date: the returned dates are strictly
  increasing, hence unique, none is missing or in the future, and they are exactly the
  dates of the input.
\<close>

theorem validate_result:
  "((\<exists>e. validate today df = Inl e) \<longleftrightarrow>
      (\<exists>r\<in>set df. date r = NaT \<or> ts_gt (date r) (Timestamp today))) \<and>
   (\<forall>out. validate today df = Inr out \<longrightarrow>
      out = sort_values (drop_duplicates df) \<and>
      sorted_wrt (<) (map stamp out) \<and>
      distinct (map date out) \<and>
      (\<forall>r\<in>set out. date r = Timestamp (stamp r) \<and> stamp r \<le> today) \<and>
      date ` set out = date ` set df \<and>
      (\<forall>r. r \<in> set out \<longleftrightarrow> find (\<lambda>s. date s = date r) df = Some r))"
proof -
  have iff: "(\<exists>e. validate today df = Inl e) \<longleftrightarrow>
      (\<exists>r\<in>set df. date r = NaT \<or> ts_gt (date r) (Timestamp today))"
    by (auto simp: validate_cases)
  have res: "out = sort_values (drop_duplicates df) \<and>
      sorted_wrt (<) (map stamp out) \<and>
      distinct (map date out) \<and>
      (\<forall>r\<in>set out. date r = Timestamp (stamp r) \<and> stamp r \<le> today) \<and>
      date ` set out = date ` set df \<and>
      (\<forall>r. r \<in> set out \<longleftrightarrow> find (\<lambda>s. date s = date r) df = Some r)"
    if v: "validate today df = Inr out" for out
  proof -
    from v have ok: "\<forall>r\<in>set df. date r \<noteq> NaT \<and> \<not> ts_gt (date r) (Timestamp today)"
      and out: "out = sort_values (drop_duplicates df)"
      by (auto simp: validate_cases split: if_splits)
    have dated: "\<forall>r\<in>set (drop_duplicates df). date r \<noteq> NaT"
      using ok drop_duplicates_subset by blast
    have s: "set out = set (drop_duplicates df)" using out by (simp add: sort_values_set)
    have bound: "date r = Timestamp (stamp r) \<and> stamp r \<le> today" if "r \<in> set out" for r
    proof -
      from that s have "r \<in> set df" using drop_duplicates_subset by blast
      with ok have "date r \<noteq> NaT" "\<not> ts_gt (date r) (Timestamp today)" by auto
      then show ?thesis by (cases "date r") (auto simp: stamp_def)
    qed
    have inc: "sorted_wrt (<) (map stamp out)" and dis: "distinct (map date out)"
      using out sort_values_increasing [OF dated drop_duplicates_distinct] by simp_all
    have dts: "date ` set out = date ` set df"
      using s drop_duplicates_dates [of df] by simp
    have fst: "r \<in> set out \<longleftrightarrow> find (\<lambda>s. date s = date r) df = Some r" for r
      using s drop_duplicates_find [of r df] by simp
    from out inc dis bound dts fst show ?thesis by blast
  qed
  from iff res show ?thesis by blast
qed


theorem validate_result_witness:
  "validate 9 example_frame = Inr [example_bar 2, example_bar 3, example_bar 5] \<and>
   sorted_wrt (<) (map stamp [example_bar 2, example_bar 3, example_bar 5]) \<and>
   validate 4 example_frame = Inl ValueError_future_date \<and>
   (\<exists>r\<in>set example_frame. date r = NaT \<or> ts_gt (date r) (Timestamp 4)) \<and>
   validate 9 ((example_bar 1)\<lparr>date := NaT\<rparr> # example_frame) = Inl ValueError_missing_date"
proof -
  from validate_result [of 9 example_frame] example_validate
  have "sorted_wrt (<) (map stamp [example_bar 2, example_bar 3, example_bar 5])"
    by blast
  moreover from validate_result [of 4 example_frame] example_validate_future
  have "\<exists>r\<in>set example_frame. date r = NaT \<or> ts_gt (date r) (Timestamp 4)"
    by blast
  ultimately show ?thesis
    using example_validate example_validate_future example_validate_missing by blast
qed


subsection \<open>The raw stochastic value\<close>

lemma window_nth:
  assumes "0 < n" "n - 1 \<le> i" "i < length series"
  shows "window series n i = map (\<lambda>k. series ! k) [i + 1 - n ..< i + 1]"
proof (rule nth_equalityI)
  show "length (window series n i) = length (map (\<lambda>k. series ! k) [i + 1 - n ..< i + 1])"
    using assms by (simp add: window_def del: upt_Suc)
next
  fix k assume "k < length (window series n i)"
  then have k: "k < n" by (simp add: window_def)
  then have "window series n i ! k = series ! (i + 1 - n + k)"
    using assms by (simp add: window_def)
  moreover have "[i + 1 - n ..< i + 1] ! k = i + 1 - n + k"
    using assms k by (intro nth_upt) linarith
  moreover have "k < length [i + 1 - n ..< i + 1]"
    using assms k by (simp del: upt_Suc)
  ultimately show "window series n i ! k = map (\<lambda>k. series ! k) [i + 1 - n ..< i + 1] ! k"
    by (simp del: upt_Suc)
qed

lemma current_in_window:
  assumes "0 < n" "n - 1 \<le> i" "i < length series"
  shows "series ! i \<in> set (window series n i)"
proof -
  have "i \<in> set [i + 1 - n ..< i + 1]" using assms by (simp del: upt_Suc)
  then have "series ! i \<in> set (map (\<lambda>k. series ! k) [i + 1 - n ..< i + 1])"
    unfolding set_map by (rule imageI)
  then show ?thesis using window_nth [OF assms] by simp
qed

lemma window_subset: "set (window series n i) \<subseteq> set series"
  by (auto simp: window_def dest: in_set_takeD in_set_dropD)

lemma rsv_bounds:
  assumes ok: "\<forall>b\<in>set series. bar_ok b" and n: "0 < n" "n - 1 \<le> i" and i: "i < length series"
    and ne: "rolling_max_high series n i \<noteq> rolling_min_low series n i"
  shows "0 \<le> (close (series ! i) - rolling_min_low series n i) /
              (rolling_max_high series n i - rolling_min_low series n i) * 100"
    and "(close (series ! i) - rolling_min_low series n i) /
              (rolling_max_high series n i - rolling_min_low series n i) * 100 \<le> 100"
proof -
  let ?lo = "rolling_min_low series n i" and ?hi = "rolling_max_high series n i"
  let ?b = "series ! i"
  have cur: "?b \<in> set (window series n i)" using n i by (rule current_in_window)
  have b: "bar_ok ?b" using ok i by simp
  have "?lo \<le> low ?b" unfolding rolling_min_low_def using cur by (intro Min_le) auto
  moreover have "low ?b \<le> close ?b" using b by (simp add: bar_ok_def)
  ultimately have lo: "?lo \<le> close ?b" by linarith
  have "high ?b \<le> ?hi" unfolding rolling_max_high_def using cur by (intro Max_ge) auto
  moreover have "close ?b \<le> high ?b" using b by (simp add: bar_ok_def)
  ultimately have hi: "close ?b \<le> ?hi" by linarith
  from lo hi ne have pos: "0 < ?hi - ?lo" by linarith
  define q where "q = (close ?b - ?lo) / (?hi - ?lo)"
  have "0 \<le> q" using lo pos by (simp add: q_def)
  moreover have "q \<le> 1" using hi pos by (simp add: q_def divide_le_eq)
  ultimately have "0 \<le> q * 100" "q * 100 \<le> 100" by linarith+
  then show "0 \<le> (close ?b - ?lo) / (?hi - ?lo) * 100"
    and "(close ?b - ?lo) / (?hi - ?lo) * 100 \<le> 100"
    unfolding q_def by blast+
qed

lemma example_series_ok: "\<forall>b\<in>set example_series. bar_ok b"
  by (simp add: example_series_def bar_ok_def)

lemma example_rolling:
  "rolling_min_low example_series 2 2 = 9" "rolling_max_high example_series 2 2 = 13"
  "rolling_min_low example_series 2 4 = 5" "rolling_max_high example_series 2 4 = 5"
  "close (example_series ! 2) = 12" "length example_series = 5"
  by (simp_all add: rolling_min_low_def rolling_max_high_def window_def example_series_def
      eval_nat_numeral)

text \<open>
  C7: for a series of bars that satisfy the bar invariant, a window \<open>n > 0\<close> and an index
  \<open>i\<close> of the series: the window at \<open>i\<close> is the bars \<open>i-n+1..i\<close>; if \<open>i \<ge> n-1\<close> and the
  rolling maximum of high differs from the rolling minimum of low, the entry at \<open>i\<close> is
  \<open>(close[i] - min low) / (max high - min low) * 100\<close> and lies in \<open>[0, 100]\<close>; for \<open>i < n-1\<close>,
  or when the range is zero, the entry is undefined (and nothing fails: the result has
  one entry per bar).
\<close>

theorem compute_rsv_range:
  assumes "\<forall>b\<in>set series. bar_ok b" and "0 < n" and "i < length series"
  shows
    "length (compute_rsv series n) = length series \<and>
     (n - 1 \<le> i \<longrightarrow> window series n i = map (\<lambda>k. series ! k) [i + 1 - n ..< i + 1]) \<and>
     (n - 1 \<le> i \<and> rolling_max_high series n i \<noteq> rolling_min_low series n i \<longrightarrow>
        compute_rsv series n ! i =
          Some ((close (series ! i) - rolling_min_low series n i) /
                (rolling_max_high series n i - rolling_min_low series n i) * 100) \<and>
        0 \<le> (close (series ! i) - rolling_min_low series n i) /
                (rolling_max_high series n i - rolling_min_low series n i) * 100 \<and>
        (close (series ! i) - rolling_min_low series n i) /
                (rolling_max_high series n i - rolling_min_low series n i) * 100 \<le> 100) \<and>
     (i < n - 1 \<or> rolling_max_high series n i = rolling_min_low series n i \<longrightarrow>
        compute_rsv series n ! i = None)"
proof -
  have len: "length (compute_rsv series n) = length series"
    by (simp add: compute_rsv_def)
  have at: "compute_rsv series n ! i = rsv_at series n i"
    using assms(3) by (simp add: compute_rsv_def)
  have win: "window series n i = map (\<lambda>k. series ! k) [i + 1 - n ..< i + 1]" if "n - 1 \<le> i"
    using assms(2) that assms(3) by (rule window_nth)
  have val: "compute_rsv series n ! i =
          Some ((close (series ! i) - rolling_min_low series n i) /
                (rolling_max_high series n i - rolling_min_low series n i) * 100)"
    if "n - 1 \<le> i \<and> rolling_max_high series n i \<noteq> rolling_min_low series n i"
    using that assms(2,3) at by (auto simp: rsv_at_def Let_def)
  have none: "compute_rsv series n ! i = None"
    if "i < n - 1 \<or> rolling_max_high series n i = rolling_min_low series n i"
    using that at by (auto simp: rsv_at_def Let_def)
  from len win val none rsv_bounds [OF assms(1) assms(2) _ assms(3)]
  show ?thesis by blast
qed

theorem compute_rsv_range_witness:
  "compute_rsv example_series 2 ! 2 = Some 75 \<and> (0::real) \<le> 75 \<and> (75::real) \<le> 100 \<and>
   compute_rsv example_series 2 ! 0 = None \<and>
   compute_rsv example_series 2 ! 4 = None \<and>
   length (compute_rsv example_series 2) = 5"
proof -
  have n: "(0::nat) < 2" by simp
  have a: "compute_rsv example_series 2 ! 2 = Some 75"
  proof -
    have "(2::nat) < length example_series" by (simp add: example_rolling)
    from compute_rsv_range [OF example_series_ok n this]
    have "compute_rsv example_series 2 ! 2 =
          Some ((close (example_series ! 2) - rolling_min_low example_series 2 2) /
                (rolling_max_high example_series 2 2 - rolling_min_low example_series 2 2) * 100)"
      by (simp add: example_rolling)
    then show ?thesis by (simp add: example_rolling)
  qed
  have b: "compute_rsv example_series 2 ! 0 = None"
  proof -
    have "(0::nat) < length example_series" by (simp add: example_rolling)
    from compute_rsv_range [OF example_series_ok n this]
    show ?thesis by simp
  qed
  have c: "compute_rsv example_series 2 ! 4 = None"
  proof -
    have "(4::nat) < length example_series" by (simp add: example_rolling)
    from compute_rsv_range [OF example_series_ok n this]
    show ?thesis by (simp add: example_rolling)
  qed
  have d: "length (compute_rsv example_series 2) = 5"
  proof -
    have "(0::nat) < length example_series" by (simp add: example_rolling)
    from compute_rsv_range [OF example_series_ok n this]
    show ?thesis by (simp add: example_rolling)
  qed
  from a b c d show ?thesis by simp
qed

end
